theory Spec2Isabelle
  imports Main
begin

section \<open>The github-mcp server: argument validation and tool dispatch\<close>

text \<open>
  A shallow embedding of \<^verbatim>\<open>src/index.ts\<close>: the schema \<^verbatim>\<open>GitHubActionSchema\<close>, the three
  handlers \<^verbatim>\<open>handleRepoAction\<close>, \<^verbatim>\<open>handlePRAction\<close>, \<^verbatim>\<open>handleIssueAction\<close>, and the
  call-tool request handler installed by \<^verbatim>\<open>setupHandlers\<close>.

  An exception is a value of type \<open>exn\<close>, a handler returns \<open>exn + ToolResult\<close> (\<open>Inl\<close> is a
  throw), and every handler also returns the list of calls it made on the API client, in
  the order it made them. An \<^verbatim>\<open>await\<close> is plain sequencing: the handlers await every call
  before the next statement runs.
\<close>

subsection \<open>JavaScript values\<close>

text \<open>
  The argument object of a request is untyped (\<^verbatim>\<open>args: any\<close>). Numbers are only ever
  tested for not being a string or a boolean, so integers stand for them. An object is
  the list of its own properties; a property that is not there reads as \<^verbatim>\<open>undefined\<close>.
\<close>

datatype jsval =
    JUndefined
  | JNull
  | JBool bool
  | JNum int
  | JStr string
  | JArr "jsval list"
  | JObj "(string \<times> jsval) list"

definition get_prop :: "string \<Rightarrow> (string \<times> jsval) list \<Rightarrow> jsval" where
  "get_prop k fs = (case map_of fs k of None \<Rightarrow> JUndefined | Some v \<Rightarrow> v)"

text \<open>\<^verbatim>\<open>s.split(c)\<close> for a one-character separator: \<^verbatim>\<open>"a/b".split("/")\<close> is \<^verbatim>\<open>["a","b"]\<close>,
  \<^verbatim>\<open>"a/".split("/")\<close> is \<^verbatim>\<open>["a",""]\<close> and \<^verbatim>\<open>"".split("/")\<close> is \<^verbatim>\<open>[""]\<close>.\<close>

fun str_split :: "char \<Rightarrow> string \<Rightarrow> string list" where
  "str_split c [] = [[]]"
| "str_split c (x # xs) =
     (if x = c then [] # str_split c xs
      else (case str_split c xs of
              [] \<Rightarrow> [[x]]
            | w # ws \<Rightarrow> (x # w) # ws))"

text \<open>\<^verbatim>\<open>s.includes(c)\<close> for a one-character needle.\<close>

definition str_includes :: "string \<Rightarrow> char \<Rightarrow> bool" where
  "str_includes s c = (c \<in> set s)"

text \<open>The array pattern \<^verbatim>\<open>const [owner, repo] = xs\<close>: the first two elements, each
  \<^verbatim>\<open>undefined\<close> (here \<open>None\<close>) when the array is too short; further elements are ignored.\<close>

fun destructure2 :: "'a list \<Rightarrow> 'a option \<times> 'a option" where
  "destructure2 [] = (None, None)"
| "destructure2 [a] = (Some a, None)"
| "destructure2 (a # b # _) = (Some a, Some b)"

subsection \<open>Protocol errors and results\<close>

text \<open>The members of the SDK's \<^verbatim>\<open>ErrorCode\<close> that the server uses.\<close>

datatype ErrorCode = InvalidParams | MethodNotFound | InternalError

text \<open>
  A thrown value is either an \<^verbatim>\<open>McpError\<close>, with the code and the message given to its
  constructor, or any other error, of which the server reads only \<^verbatim>\<open>.message\<close>: a
  \<^verbatim>\<open>ZodError\<close> of the validator, a request error of the API client.
\<close>

datatype exn = McpError ErrorCode string | Error string

record content_block =
  type :: string
  "text" :: string

record ToolResult =
  content :: "content_block list"

subsection \<open>The argument schema of the repository tool\<close>

datatype repo_action = A_list | A_create | A_clone | A_view | A_delete | A_fork

fun action_name :: "repo_action \<Rightarrow> string" where
  "action_name A_list = ''list''"
| "action_name A_create = ''create''"
| "action_name A_clone = ''clone''"
| "action_name A_view = ''view''"
| "action_name A_delete = ''delete''"
| "action_name A_fork = ''fork''"

record params =
  action :: repo_action
  name :: "string option"
  description :: "string option"
  public :: "bool option"
  clone :: "bool option"
  path :: "string option"
  org :: "string option"

text \<open>
  The field parsers of the schema; \<open>None\<close> is a validation issue.
  \<^verbatim>\<open>z.enum([...])\<close> accepts exactly the listed strings. \<^verbatim>\<open>z.string().optional()\<close> accepts a
  string or \<^verbatim>\<open>undefined\<close> (not \<^verbatim>\<open>null\<close>) and returns what it was given; it supplies no
  default. \<^verbatim>\<open>z.boolean().optional()\<close> likewise.
\<close>

fun z_enum_action :: "jsval \<Rightarrow> repo_action option" where
  "z_enum_action (JStr s) =
     (if s = ''list'' then Some A_list
      else if s = ''create'' then Some A_create
      else if s = ''clone'' then Some A_clone
      else if s = ''view'' then Some A_view
      else if s = ''delete'' then Some A_delete
      else if s = ''fork'' then Some A_fork
      else None)"
| "z_enum_action _ = None"

fun z_string_optional :: "jsval \<Rightarrow> string option option" where
  "z_string_optional JUndefined = Some None"
| "z_string_optional (JStr s) = Some (Some s)"
| "z_string_optional _ = None"

fun z_boolean_optional :: "jsval \<Rightarrow> bool option option" where
  "z_boolean_optional JUndefined = Some None"
| "z_boolean_optional (JBool b) = Some (Some b)"
| "z_boolean_optional _ = None"

text \<open>
  \<^verbatim>\<open>GitHubActionSchema.parse(args)\<close>. A \<^verbatim>\<open>z.object\<close> accepts only an object (not an array,
  not \<^verbatim>\<open>null\<close>), parses each declared field and drops the others. When any field has an
  issue it throws a \<^verbatim>\<open>ZodError\<close>, which is not an \<^verbatim>\<open>McpError\<close>; the text of its message is
  the library's rendering of the issues, taken as the parameter \<open>zmsg\<close>.
\<close>

definition GitHubActionSchema_parse :: "(jsval \<Rightarrow> string) \<Rightarrow> jsval \<Rightarrow> exn + params" where
  "GitHubActionSchema_parse zmsg args =
     (case args of
        JObj fs \<Rightarrow>
          (case (z_enum_action (get_prop ''action'' fs),
                 z_string_optional (get_prop ''name'' fs),
                 z_string_optional (get_prop ''description'' fs),
                 z_boolean_optional (get_prop ''public'' fs),
                 z_boolean_optional (get_prop ''clone'' fs),
                 z_string_optional (get_prop ''path'' fs),
                 z_string_optional (get_prop ''org'' fs)) of
             (Some a, Some n, Some d, Some p, Some c, Some pa, Some og) \<Rightarrow>
               Inr \<lparr>action = a, name = n, description = d, public = p, clone = c,
                    path = pa, org = og\<rparr>
           | _ \<Rightarrow> Inl (Error (zmsg args)))
      | _ \<Rightarrow> Inl (Error (zmsg args)))"

subsection \<open>The API client\<close>

text \<open>What the handlers read of a repository and of a user in the client's responses.
  A field that may be \<^verbatim>\<open>null\<close> or missing is an option.\<close>

record repo_data =
  full_name :: string
  repo_description :: "string option"
  repo_private :: bool
  html_url :: string
  language :: "string option"
  stargazers_count :: int
  forks_count :: int
  open_issues_count :: int
  created_at :: "string option"
  updated_at :: "string option"
  topics :: "string list option"
  default_branch :: string

record user_data =
  login :: string

text \<open>
  The calls the handlers make on the client, with their arguments:
  \<^verbatim>\<open>repos.listForAuthenticatedUser({sort, per_page})\<close>,
  \<^verbatim>\<open>repos.createForAuthenticatedUser({name, description, private, auto_init})\<close>,
  \<^verbatim>\<open>users.getAuthenticated()\<close> and \<^verbatim>\<open>repos.get({owner, repo})\<close>.
\<close>

datatype call =
    Repos_listForAuthenticatedUser string nat
  | Repos_createForAuthenticatedUser string "string option" bool bool
  | Users_getAuthenticated
  | Repos_get "string option" "string option"

text \<open>
  The world outside the server: what each call on the client answers (\<open>Inl\<close> when it
  throws), and the two library functions whose text the server passes on,
  \<^verbatim>\<open>JSON.stringify(v, null, 2)\<close> and the message of a \<^verbatim>\<open>ZodError\<close>. One request makes each
  call at most once, so an answer does not depend on earlier calls.
\<close>

record env =
  repos_listForAuthenticatedUser :: "string \<Rightarrow> nat \<Rightarrow> exn + repo_data list"
  repos_createForAuthenticatedUser :: "string \<Rightarrow> string option \<Rightarrow> bool \<Rightarrow> bool \<Rightarrow> exn + repo_data"
  users_getAuthenticated :: "exn + user_data"
  repos_get :: "string option \<Rightarrow> string option \<Rightarrow> exn + repo_data"
  JSON_stringify :: "jsval \<Rightarrow> string"
  ZodError_message :: "jsval \<Rightarrow> string"

text \<open>The error a call raises in a given world, if it raises one.\<close>

fun raised :: "env \<Rightarrow> call \<Rightarrow> exn option" where
  "raised e (Repos_listForAuthenticatedUser s n) =
     (case repos_listForAuthenticatedUser e s n of Inl x \<Rightarrow> Some x | Inr _ \<Rightarrow> None)"
| "raised e (Repos_createForAuthenticatedUser n d p a) =
     (case repos_createForAuthenticatedUser e n d p a of Inl x \<Rightarrow> Some x | Inr _ \<Rightarrow> None)"
| "raised e Users_getAuthenticated =
     (case users_getAuthenticated e of Inl x \<Rightarrow> Some x | Inr _ \<Rightarrow> None)"
| "raised e (Repos_get ow r) =
     (case repos_get e ow r of Inl x \<Rightarrow> Some x | Inr _ \<Rightarrow> None)"

subsection \<open>The handlers\<close>

definition nullable :: "string option \<Rightarrow> jsval" where
  "nullable s = (case s of None \<Rightarrow> JNull | Some t \<Rightarrow> JStr t)"

text \<open>The object built for each repository by the \<^verbatim>\<open>list\<close> action.\<close>

definition list_entry :: "repo_data \<Rightarrow> jsval" where
  "list_entry repo = JObj
     [(''name'', JStr (full_name repo)),
      (''description'', nullable (repo_description repo)),
      (''private'', JBool (repo_private repo)),
      (''url'', JStr (html_url repo)),
      (''language'', nullable (language repo)),
      (''stars'', JNum (stargazers_count repo)),
      (''updated'', nullable (updated_at repo))]"

text \<open>The object built by the \<^verbatim>\<open>view\<close> action.\<close>

definition view_entry :: "repo_data \<Rightarrow> jsval" where
  "view_entry data = JObj
     [(''name'', JStr (full_name data)),
      (''description'', nullable (repo_description data)),
      (''private'', JBool (repo_private data)),
      (''url'', JStr (html_url data)),
      (''language'', nullable (language data)),
      (''stars'', JNum (stargazers_count data)),
      (''forks'', JNum (forks_count data)),
      (''issues'', JNum (open_issues_count data)),
      (''created'', nullable (created_at data)),
      (''updated'', nullable (updated_at data)),
      (''topics'', (case topics data of None \<Rightarrow> JUndefined | Some ts \<Rightarrow> JArr (map JStr ts))),
      (''default_branch'', JStr (default_branch data))]"

text \<open>\<^verbatim>\<open>{ content: [ { type: 'text', text: t } ] }\<close>, the shape of every returned result.\<close>

definition text_result :: "string \<Rightarrow> ToolResult" where
  "text_result t = \<lparr>content = [\<lparr>type = ''text'', text = t\<rparr>]\<rparr>"

text \<open>\<^verbatim>\<open>!params.public\<close>: \<^verbatim>\<open>undefined\<close> is falsy, so its negation is \<^verbatim>\<open>true\<close>.\<close>

definition js_not :: "bool option \<Rightarrow> bool" where
  "js_not b = (case b of None \<Rightarrow> True | Some v \<Rightarrow> \<not> v)"

text \<open>
  \<^verbatim>\<open>handleRepoAction\<close>. The test \<^verbatim>\<open>!params.name\<close> holds for \<^verbatim>\<open>undefined\<close> and for the empty
  string. The \<^verbatim>\<open>default\<close> branch of the switch takes \<^verbatim>\<open>clone\<close>, \<^verbatim>\<open>delete\<close> and \<^verbatim>\<open>fork\<close>.
\<close>

definition handleRepoAction :: "env \<Rightarrow> jsval \<Rightarrow> (exn + ToolResult) \<times> call list" where
  "handleRepoAction e args =
     (case GitHubActionSchema_parse (ZodError_message e) args of
        Inl err \<Rightarrow> (Inl err, [])
      | Inr params \<Rightarrow>
          (case action params of
             A_list \<Rightarrow>
               (case repos_listForAuthenticatedUser e ''updated'' 100 of
                  Inl err \<Rightarrow> (Inl err, [Repos_listForAuthenticatedUser ''updated'' 100])
                | Inr data \<Rightarrow>
                    (Inr (text_result (JSON_stringify e (JArr (map list_entry data)))),
                     [Repos_listForAuthenticatedUser ''updated'' 100]))
           | A_create \<Rightarrow>
               (case name params of
                  None \<Rightarrow> (Inl (McpError InvalidParams ''Repository name is required''), [])
                | Some n \<Rightarrow>
                    if n = [] then
                      (Inl (McpError InvalidParams ''Repository name is required''), [])
                    else
                      (case repos_createForAuthenticatedUser e n (description params)
                              (js_not (public params)) True of
                         Inl err \<Rightarrow>
                           (Inl err,
                            [Repos_createForAuthenticatedUser n (description params)
                               (js_not (public params)) True])
                       | Inr data \<Rightarrow>
                           (Inr (text_result (''Repository created: '' @ html_url data)),
                            [Repos_createForAuthenticatedUser n (description params)
                               (js_not (public params)) True])))
           | A_view \<Rightarrow>
               (case name params of
                  None \<Rightarrow> (Inl (McpError InvalidParams ''Repository name is required''), [])
                | Some n \<Rightarrow>
                    if n = [] then
                      (Inl (McpError InvalidParams ''Repository name is required''), [])
                    else
                      (case (if str_includes n (CHR ''/'')
                             then (Inr (destructure2 (str_split (CHR ''/'') n)), [])
                             else (case users_getAuthenticated e of
                                     Inl err \<Rightarrow> (Inl err, [Users_getAuthenticated])
                                   | Inr u \<Rightarrow>
                                       (Inr (Some (login u), Some n), [Users_getAuthenticated]))) of
                         (Inl err, calls) \<Rightarrow> (Inl err, calls)
                       | (Inr (owner, repo), calls) \<Rightarrow>
                           (case repos_get e owner repo of
                              Inl err \<Rightarrow> (Inl err, calls @ [Repos_get owner repo])
                            | Inr data \<Rightarrow>
                                (Inr (text_result (JSON_stringify e (view_entry data))),
                                 calls @ [Repos_get owner repo]))))
           | _ \<Rightarrow>
               (Inl (McpError InvalidParams
                       (''Unsupported action: '' @ action_name (action params))), [])))"

definition handlePRAction :: "env \<Rightarrow> jsval \<Rightarrow> (exn + ToolResult) \<times> call list" where
  "handlePRAction e args =
     (Inr \<lparr>content = [\<lparr>type = ''text'',
                        text = ''PR action handler not fully implemented yet''\<rparr>]\<rparr>, [])"

definition handleIssueAction :: "env \<Rightarrow> jsval \<Rightarrow> (exn + ToolResult) \<times> call list" where
  "handleIssueAction e args =
     (Inr \<lparr>content = [\<lparr>type = ''text'',
                        text = ''Issue action handler not fully implemented yet''\<rparr>]\<rparr>, [])"

subsection \<open>The call-tool request handler\<close>

text \<open>
  The \<^verbatim>\<open>catch\<close> clause: an \<^verbatim>\<open>McpError\<close> is thrown again as it is, anything else becomes an
  \<^verbatim>\<open>InternalError\<close> whose message is \<^verbatim>\<open>`GitHub API error: ${error.message}`\<close>.
\<close>

fun rewrap :: "exn \<Rightarrow> exn" where
  "rewrap (McpError c m) = McpError c m"
| "rewrap (Error m) = McpError InternalError (''GitHub API error: '' @ m)"

text \<open>
  The handler for \<^verbatim>\<open>CallToolRequestSchema\<close>, with the three methods it dispatches to as
  parameters: a switch on the tool name inside \<^verbatim>\<open>try\<close>, then the \<^verbatim>\<open>catch\<close> clause.
\<close>

definition callToolWith ::
  "(jsval \<Rightarrow> (exn + ToolResult) \<times> call list) \<Rightarrow>
   (jsval \<Rightarrow> (exn + ToolResult) \<times> call list) \<Rightarrow>
   (jsval \<Rightarrow> (exn + ToolResult) \<times> call list) \<Rightarrow>
   string \<Rightarrow> jsval \<Rightarrow> (exn + ToolResult) \<times> call list" where
  "callToolWith hRepo hPR hIssue nm args =
     (case (if nm = ''gh_repo'' then hRepo args
            else if nm = ''gh_pr'' then hPR args
            else if nm = ''gh_issue'' then hIssue args
            else (Inl (McpError MethodNotFound (''Unknown tool: '' @ nm)), [])) of
        (Inl err, calls) \<Rightarrow> (Inl (rewrap err), calls)
      | (Inr res, calls) \<Rightarrow> (Inr res, calls))"

text \<open>The handler as the server installs it.\<close>

definition callTool :: "env \<Rightarrow> string \<Rightarrow> jsval \<Rightarrow> (exn + ToolResult) \<times> call list" where
  "callTool e = callToolWith (handleRepoAction e) (handlePRAction e) (handleIssueAction e)"

subsection \<open>The tool catalog\<close>

text \<open>What the handler for \<^verbatim>\<open>ListToolsRequestSchema\<close> returns: the three tool descriptors,
  each input schema written as the object literal of the source.\<close>

record tool =
  tool_name :: string
  tool_description :: string
  inputSchema :: jsval

definition listTools :: "tool list" where
  "listTools =
     [\<lparr>tool_name = ''gh_repo'',
       tool_description = ''Manage GitHub repositories'',
       inputSchema = JObj
         [(''type'', JStr ''object''),
          (''properties'', JObj
             [(''action'', JObj
                 [(''type'', JStr ''string''),
                  (''enum'', JArr [JStr ''list'', JStr ''create'', JStr ''clone'',
                                   JStr ''view'', JStr ''delete'', JStr ''fork'']),
                  (''description'', JStr ''Repository action'')]),
              (''name'', JObj
                 [(''type'', JStr ''string''),
                  (''description'', JStr ''Repository name (owner/repo or just repo)'')]),
              (''description'', JObj
                 [(''type'', JStr ''string''),
                  (''description'', JStr ''Repository description'')]),
              (''public'', JObj
                 [(''type'', JStr ''boolean''),
                  (''description'', JStr ''Make repository public''),
                  (''default'', JBool True)]),
              (''org'', JObj
                 [(''type'', JStr ''string''),
                  (''description'', JStr ''Organization name'')]),
              (''path'', JObj
                 [(''type'', JStr ''string''),
                  (''description'', JStr ''Local path for clone'')])]),
          (''required'', JArr [JStr ''action''])]\<rparr>,
      \<lparr>tool_name = ''gh_pr'',
       tool_description = ''Manage pull requests'',
       inputSchema = JObj
         [(''type'', JStr ''object''),
          (''properties'', JObj
             [(''action'', JObj
                 [(''type'', JStr ''string''),
                  (''enum'', JArr [JStr ''list'', JStr ''create'', JStr ''view'', JStr ''merge'',
                                   JStr ''close'', JStr ''review'', JStr ''checkout'']),
                  (''description'', JStr ''PR action'')]),
              (''repo'', JObj
                 [(''type'', JStr ''string''),
                  (''description'', JStr ''Repository (owner/repo)'')]),
              (''number'', JObj
                 [(''type'', JStr ''number''),
                  (''description'', JStr ''PR number'')]),
              (''title'', JObj
                 [(''type'', JStr ''string''),
                  (''description'', JStr ''PR title'')]),
              (''body'', JObj
                 [(''type'', JStr ''string''),
                  (''description'', JStr ''PR body'')]),
              (''base'', JObj
                 [(''type'', JStr ''string''),
                  (''description'', JStr ''Base branch'')]),
              (''head'', JObj
                 [(''type'', JStr ''string''),
                  (''description'', JStr ''Head branch'')]),
              (''state'', JObj
                 [(''type'', JStr ''string''),
                  (''enum'', JArr [JStr ''open'', JStr ''closed'', JStr ''all'']),
                  (''default'', JStr ''open'')]),
              (''draft'', JObj
                 [(''type'', JStr ''boolean''),
                  (''default'', JBool False)])]),
          (''required'', JArr [JStr ''action''])]\<rparr>,
      \<lparr>tool_name = ''gh_issue'',
       tool_description = ''Manage GitHub issues'',
       inputSchema = JObj
         [(''type'', JStr ''object''),
          (''properties'', JObj
             [(''action'', JObj
                 [(''type'', JStr ''string''),
                  (''enum'', JArr [JStr ''list'', JStr ''create'', JStr ''view'', JStr ''close'',
                                   JStr ''reopen'', JStr ''comment'']),
                  (''description'', JStr ''Issue action'')]),
              (''repo'', JObj
                 [(''type'', JStr ''string''),
                  (''description'', JStr ''Repository (owner/repo)'')]),
              (''number'', JObj
                 [(''type'', JStr ''number''),
                  (''description'', JStr ''Issue number'')]),
              (''title'', JObj
                 [(''type'', JStr ''string''),
                  (''description'', JStr ''Issue title'')]),
              (''body'', JObj
                 [(''type'', JStr ''string''),
                  (''description'', JStr ''Issue body'')]),
              (''labels'', JObj
                 [(''type'', JStr ''array''),
                  (''items'', JObj [(''type'', JStr ''string'')]),
                  (''description'', JStr ''Issue labels'')]),
              (''assignees'', JObj
                 [(''type'', JStr ''array''),
                  (''items'', JObj [(''type'', JStr ''string'')]),
                  (''description'', JStr ''Assignees'')]),
              (''state'', JObj
                 [(''type'', JStr ''string''),
                  (''enum'', JArr [JStr ''open'', JStr ''closed'', JStr ''all'']),
                  (''default'', JStr ''open'')])]),
          (''required'', JArr [JStr ''action''])]\<rparr>]"

text \<open>Reading a catalog entry: the \<^verbatim>\<open>default\<close> that a tool's input schema declares for a
  property (\<^verbatim>\<open>undefined\<close> when it declares none).\<close>

definition member_of :: "string \<Rightarrow> jsval \<Rightarrow> jsval" where
  "member_of k v = (case v of JObj fs \<Rightarrow> get_prop k fs | _ \<Rightarrow> JUndefined)"

definition declared_default :: "string \<Rightarrow> string \<Rightarrow> jsval" where
  "declared_default tn field =
     (case filter (\<lambda>t. tool_name t = tn) listTools of
        [] \<Rightarrow> JUndefined
      | t # _ \<Rightarrow> member_of ''default'' (member_of field (member_of ''properties'' (inputSchema t))))"

subsection \<open>A collaborator to run requests against\<close>

text \<open>
  A client in which every call succeeds: it knows one repository and is authenticated as
  \<^verbatim>\<open>octocat\<close>. The renderings of the two library functions are stand-ins; no property
  below depends on their text.
\<close>

definition hello_world :: repo_data where
  "hello_world =
     \<lparr>full_name = ''octocat/Hello-World'',
      repo_description = Some ''My first repository'',
      repo_private = False,
      html_url = ''https://github.com/octocat/Hello-World'',
      language = None,
      stargazers_count = 80,
      forks_count = 9,
      open_issues_count = 0,
      created_at = Some ''2011-01-26T19:01:12Z'',
      updated_at = Some ''2011-01-26T19:14:43Z'',
      topics = Some [''octocat'', ''api''],
      default_branch = ''master''\<rparr>"

definition up_env :: env where
  "up_env =
     \<lparr>repos_listForAuthenticatedUser = (\<lambda>s n. Inr [hello_world]),
      repos_createForAuthenticatedUser =
        (\<lambda>n d p a. Inr (hello_world\<lparr>full_name := ''octocat/'' @ n,
                                     repo_description := d,
                                     repo_private := p,
                                     html_url := ''https://github.com/octocat/'' @ n\<rparr>)),
      users_getAuthenticated = Inr \<lparr>login = ''octocat''\<rparr>,
      repos_get = (\<lambda>ow r. Inr hello_world),
      JSON_stringify = (\<lambda>v. ''{}''),
      ZodError_message = (\<lambda>v. ''Invalid input'')\<rparr>"

text \<open>The same client when the service rejects the credential: every call throws.\<close>

definition down_env :: env where
  "down_env =
     \<lparr>repos_listForAuthenticatedUser = (\<lambda>s n. Inl (Error ''Bad credentials'')),
      repos_createForAuthenticatedUser = (\<lambda>n d p a. Inl (Error ''Bad credentials'')),
      users_getAuthenticated = Inl (Error ''Bad credentials''),
      repos_get = (\<lambda>ow r. Inl (Error ''Bad credentials'')),
      JSON_stringify = (\<lambda>v. ''{}''),
      ZodError_message = (\<lambda>v. ''Invalid input'')\<rparr>"

section \<open>What each branch of the repository handler does\<close>

lemma callTool_gh_repo:
  "callTool e ''gh_repo'' args =
     (case handleRepoAction e args of
        (Inl err, calls) \<Rightarrow> (Inl (rewrap err), calls)
      | (Inr res, calls) \<Rightarrow> (Inr res, calls))"
  by (simp add: callTool_def callToolWith_def)

lemma parse_Inl:
  "GitHubActionSchema_parse zmsg args = Inl x \<Longrightarrow> x = Error (zmsg args)"
  by (auto simp: GitHubActionSchema_parse_def split: jsval.splits option.splits)

lemma handleRepoAction_invalid:
  "GitHubActionSchema_parse (ZodError_message e) args = Inl x \<Longrightarrow>
   handleRepoAction e args = (Inl (Error (ZodError_message e args)), [])"
  using parse_Inl [of "ZodError_message e" args x] by (simp add: handleRepoAction_def)

lemma handleRepoAction_list:
  "GitHubActionSchema_parse (ZodError_message e) args = Inr p \<Longrightarrow> action p = A_list \<Longrightarrow>
   handleRepoAction e args =
     (case repos_listForAuthenticatedUser e ''updated'' 100 of
        Inl err \<Rightarrow> Inl err
      | Inr data \<Rightarrow> Inr (text_result (JSON_stringify e (JArr (map list_entry data)))),
      [Repos_listForAuthenticatedUser ''updated'' 100])"
  by (simp add: handleRepoAction_def split: sum.splits)

lemma handleRepoAction_no_name:
  "GitHubActionSchema_parse (ZodError_message e) args = Inr p \<Longrightarrow>
   action p = A_create \<or> action p = A_view \<Longrightarrow> name p = None \<or> name p = Some [] \<Longrightarrow>
   handleRepoAction e args = (Inl (McpError InvalidParams ''Repository name is required''), [])"
  by (auto simp: handleRepoAction_def)

lemma handleRepoAction_create:
  "GitHubActionSchema_parse (ZodError_message e) args = Inr p \<Longrightarrow> action p = A_create \<Longrightarrow>
   name p = Some n \<Longrightarrow> n \<noteq> [] \<Longrightarrow>
   handleRepoAction e args =
     (case repos_createForAuthenticatedUser e n (description p) (js_not (public p)) True of
        Inl err \<Rightarrow> Inl err
      | Inr data \<Rightarrow> Inr (text_result (''Repository created: '' @ html_url data)),
      [Repos_createForAuthenticatedUser n (description p) (js_not (public p)) True])"
  by (simp add: handleRepoAction_def split: sum.splits)

lemma handleRepoAction_view_qualified:
  "GitHubActionSchema_parse (ZodError_message e) args = Inr p \<Longrightarrow> action p = A_view \<Longrightarrow>
   name p = Some n \<Longrightarrow> str_includes n (CHR ''/'') \<Longrightarrow>
   destructure2 (str_split (CHR ''/'') n) = (ow, r) \<Longrightarrow>
   handleRepoAction e args =
     (case repos_get e ow r of
        Inl err \<Rightarrow> Inl err
      | Inr data \<Rightarrow> Inr (text_result (JSON_stringify e (view_entry data))),
      [Repos_get ow r])"
  by (auto simp: handleRepoAction_def str_includes_def split: sum.splits)

lemma handleRepoAction_view_lookup_fails:
  "GitHubActionSchema_parse (ZodError_message e) args = Inr p \<Longrightarrow> action p = A_view \<Longrightarrow>
   name p = Some n \<Longrightarrow> n \<noteq> [] \<Longrightarrow> \<not> str_includes n (CHR ''/'') \<Longrightarrow>
   users_getAuthenticated e = Inl err \<Longrightarrow>
   handleRepoAction e args = (Inl err, [Users_getAuthenticated])"
  by (simp add: handleRepoAction_def)

lemma handleRepoAction_view_lookup:
  "GitHubActionSchema_parse (ZodError_message e) args = Inr p \<Longrightarrow> action p = A_view \<Longrightarrow>
   name p = Some n \<Longrightarrow> n \<noteq> [] \<Longrightarrow> \<not> str_includes n (CHR ''/'') \<Longrightarrow>
   users_getAuthenticated e = Inr u \<Longrightarrow>
   handleRepoAction e args =
     (case repos_get e (Some (login u)) (Some n) of
        Inl err \<Rightarrow> Inl err
      | Inr data \<Rightarrow> Inr (text_result (JSON_stringify e (view_entry data))),
      [Users_getAuthenticated, Repos_get (Some (login u)) (Some n)])"
  by (simp add: handleRepoAction_def split: sum.splits)

lemma handleRepoAction_unsupported:
  "GitHubActionSchema_parse (ZodError_message e) args = Inr p \<Longrightarrow>
   action p = A_clone \<or> action p = A_delete \<or> action p = A_fork \<Longrightarrow>
   handleRepoAction e args =
     (Inl (McpError InvalidParams (''Unsupported action: '' @ action_name (action p))), [])"
  by (auto simp: handleRepoAction_def)

lemma str_split_prefix:
  "c \<notin> set a \<Longrightarrow> str_split c (a @ c # rest) = a # str_split c rest"
  by (induction a) auto

lemma str_split_nonempty: "str_split c s \<noteq> []"
  by (induction s) (auto split: list.splits)

lemma callTool_gh_pr:
  "callTool e ''gh_pr'' args =
     (Inr (text_result ''PR action handler not fully implemented yet''), [])"
  by (simp add: callTool_def callToolWith_def handlePRAction_def text_result_def)

lemma callTool_gh_issue:
  "callTool e ''gh_issue'' args =
     (Inr (text_result ''Issue action handler not fully implemented yet''), [])"
  by (simp add: callTool_def callToolWith_def handleIssueAction_def text_result_def)

text \<open>The arguments of the examples below, as the validator returns them.\<close>

lemma parse_create_demo:
  "GitHubActionSchema_parse zmsg (JObj [(''action'', JStr ''create''), (''name'', JStr ''demo'')])
     = Inr \<lparr>action = A_create, name = Some ''demo'', description = None, public = None,
            clone = None, path = None, org = None\<rparr>"
  by (simp add: GitHubActionSchema_parse_def get_prop_def)

lemma parse_fork:
  "GitHubActionSchema_parse zmsg
       (JObj [(''action'', JStr ''fork''), (''name'', JStr ''octocat/Hello-World'')])
     = Inr \<lparr>action = A_fork, name = Some ''octocat/Hello-World'', description = None,
            public = None, clone = None, path = None, org = None\<rparr>"
  by (simp add: GitHubActionSchema_parse_def get_prop_def)

section \<open>Creating a repository\<close>

text \<open>
  When the arguments pass the schema and the name is a non-empty string, \<^verbatim>\<open>create\<close> makes
  exactly one call; it sends \<^verbatim>\<open>auto_init: true\<close>, and \<^verbatim>\<open>private\<close> is the negation of
  \<^verbatim>\<open>public\<close> when \<^verbatim>\<open>public\<close> was supplied and \<^verbatim>\<open>true\<close> when it was not.
\<close>

lemma create_sends_negated_public:
  assumes "GitHubActionSchema_parse (ZodError_message e) args = Inr p"
    and "action p = A_create" and "name p = Some n" and "n \<noteq> []"
  shows "snd (callTool e ''gh_repo'' args) =
           [Repos_createForAuthenticatedUser n (description p)
              (case public p of None \<Rightarrow> True | Some b \<Rightarrow> \<not> b) True]"
  using assms
  by (simp add: callTool_gh_repo handleRepoAction_create js_not_def split: sum.splits)

text \<open>
  Claim C1 says that a \<^verbatim>\<open>create\<close> without the \<^verbatim>\<open>public\<close> field gets the declared default
  \<^verbatim>\<open>true\<close>, so that the repository is created with \<^verbatim>\<open>private = false\<close>. The catalog does
  declare that default, but the schema that validates the arguments does not apply it:
  for \<^verbatim>\<open>{action: "create", name: "demo"}\<close> the one call that goes out carries
  \<^verbatim>\<open>private = true\<close> (and \<^verbatim>\<open>auto_init = true\<close>), whatever the client answers.
\<close>

theorem create_without_public_is_private:
  "snd (callTool e ''gh_repo'' (JObj [(''action'', JStr ''create''), (''name'', JStr ''demo'')]))
     = [Repos_createForAuthenticatedUser ''demo'' None True True]
   \<and> declared_default ''gh_repo'' ''public'' = JBool True"
proof
  show "snd (callTool e ''gh_repo'' (JObj [(''action'', JStr ''create''), (''name'', JStr ''demo'')]))
          = [Repos_createForAuthenticatedUser ''demo'' None True True]"
    by (simp add: callTool_gh_repo handleRepoAction_create [OF parse_create_demo] js_not_def
             split: sum.splits)
  show "declared_default ''gh_repo'' ''public'' = JBool True"
    by (simp add: declared_default_def listTools_def member_of_def get_prop_def)
qed

section \<open>Actions and tools without an implementation\<close>

text \<open>
  Claim C2 says that \<^verbatim>\<open>clone\<close>, \<^verbatim>\<open>delete\<close> and \<^verbatim>\<open>fork\<close> of the repository tool return a
  fixed placeholder text as a successful result. They do not: \<^verbatim>\<open>{action: "clone"}\<close>
  reaches the \<^verbatim>\<open>default\<close> branch of the switch, which throws \<^verbatim>\<open>InvalidParams\<close>.
\<close>

theorem clone_is_rejected_counterexample:
  "callTool up_env ''gh_repo'' (JObj [(''action'', JStr ''clone'')])
     = (Inl (McpError InvalidParams ''Unsupported action: clone''), [])"
  by (simp add: callTool_gh_repo handleRepoAction_def GitHubActionSchema_parse_def get_prop_def)

text \<open>
  Claim C2 as amended: when the validated action of a \<^verbatim>\<open>gh_repo\<close> request is \<^verbatim>\<open>clone\<close>,
  \<^verbatim>\<open>delete\<close> or \<^verbatim>\<open>fork\<close>, dispatch fails with \<^verbatim>\<open>InvalidParams\<close> and the message
  \<^verbatim>\<open>Unsupported action: <action>\<close>, and no call is made on the client; every \<^verbatim>\<open>gh_pr\<close> and
  every \<^verbatim>\<open>gh_issue\<close> request returns its fixed placeholder text as a successful result,
  with no call on the client either.
\<close>

theorem unsupported_actions_and_placeholders:
  "(GitHubActionSchema_parse (ZodError_message e) args = Inr p \<and>
      action p \<in> {A_clone, A_delete, A_fork} \<longrightarrow>
      callTool e ''gh_repo'' args =
        (Inl (McpError InvalidParams (''Unsupported action: '' @ action_name (action p))), []))
   \<and> callTool e ''gh_pr'' args =
        (Inr (text_result ''PR action handler not fully implemented yet''), [])
   \<and> callTool e ''gh_issue'' args =
        (Inr (text_result ''Issue action handler not fully implemented yet''), [])"
proof (intro conjI impI)
  assume h: "GitHubActionSchema_parse (ZodError_message e) args = Inr p \<and>
      action p \<in> {A_clone, A_delete, A_fork}"
  then have "handleRepoAction e args =
     (Inl (McpError InvalidParams (''Unsupported action: '' @ action_name (action p))), [])"
    by (intro handleRepoAction_unsupported) auto
  then show "callTool e ''gh_repo'' args =
        (Inl (McpError InvalidParams (''Unsupported action: '' @ action_name (action p))), [])"
    by (simp add: callTool_gh_repo)
next
  show "callTool e ''gh_pr'' args =
        (Inr (text_result ''PR action handler not fully implemented yet''), [])"
    by (rule callTool_gh_pr)
next
  show "callTool e ''gh_issue'' args =
        (Inr (text_result ''Issue action handler not fully implemented yet''), [])"
    by (rule callTool_gh_issue)
qed

text \<open>Claim C2 as amended, on \<^verbatim>\<open>{action: "fork", name: "octocat/Hello-World"}\<close>.\<close>

theorem unsupported_actions_and_placeholders_witness:
  "GitHubActionSchema_parse (ZodError_message up_env)
       (JObj [(''action'', JStr ''fork''), (''name'', JStr ''octocat/Hello-World'')])
     = Inr \<lparr>action = A_fork, name = Some ''octocat/Hello-World'', description = None,
            public = None, clone = None, path = None, org = None\<rparr>
   \<and> callTool up_env ''gh_repo''
       (JObj [(''action'', JStr ''fork''), (''name'', JStr ''octocat/Hello-World'')])
     = (Inl (McpError InvalidParams ''Unsupported action: fork''), [])
   \<and> callTool up_env ''gh_pr''
       (JObj [(''action'', JStr ''fork''), (''name'', JStr ''octocat/Hello-World'')])
     = (Inr (text_result ''PR action handler not fully implemented yet''), [])
   \<and> callTool up_env ''gh_issue''
       (JObj [(''action'', JStr ''fork''), (''name'', JStr ''octocat/Hello-World'')])
     = (Inr (text_result ''Issue action handler not fully implemented yet''), [])"
  using parse_fork [of "ZodError_message up_env"]
    unsupported_actions_and_placeholders [of up_env
      "JObj [(''action'', JStr ''fork''), (''name'', JStr ''octocat/Hello-World'')]"
      "\<lparr>action = A_fork, name = Some ''octocat/Hello-World'', description = None,
        public = None, clone = None, path = None, org = None\<rparr>"]
  by simp

section \<open>Arguments that fail the schema\<close>

text \<open>
  Whenever the schema rejects the arguments, no call is made on the client, and the
  \<^verbatim>\<open>ZodError\<close> reaches the \<^verbatim>\<open>catch\<close> clause, which reports it as an \<^verbatim>\<open>InternalError\<close>.
\<close>

lemma invalid_arguments_are_internal_errors:
  "GitHubActionSchema_parse (ZodError_message e) args = Inl x \<Longrightarrow>
   callTool e ''gh_repo'' args =
     (Inl (McpError InternalError (''GitHub API error: '' @ ZodError_message e args)), [])"
  by (simp add: callTool_gh_repo handleRepoAction_invalid)

text \<open>
  Claim C3 says that a \<^verbatim>\<open>gh_repo\<close> request whose action is not one of the six declared
  values fails with \<^verbatim>\<open>InvalidParams\<close> and makes no network call. For \<^verbatim>\<open>{action: "bogus"}\<close>
  no call is made, but the error code is \<^verbatim>\<open>InternalError\<close> and the message presents the
  validator's complaint as an error of the GitHub API.
\<close>

theorem schema_violation_is_internal_error:
  "callTool e ''gh_repo'' (JObj [(''action'', JStr ''bogus'')])
     = (Inl (McpError InternalError
               (''GitHub API error: '' @ ZodError_message e (JObj [(''action'', JStr ''bogus'')]))), [])"
  by (simp add: callTool_gh_repo handleRepoAction_def GitHubActionSchema_parse_def get_prop_def)

section \<open>Creating a repository without a name\<close>

text \<open>
  A \<^verbatim>\<open>create\<close> request whose \<^verbatim>\<open>name\<close> field is absent never makes a call on the client.
  When its arguments pass the schema, the test \<^verbatim>\<open>!params.name\<close> is reached and throws
  \<^verbatim>\<open>InvalidParams\<close>; when they do not, the schema throws first.
\<close>

lemma create_without_name_no_call:
  assumes "get_prop ''action'' fs = JStr ''create''" and "get_prop ''name'' fs = JUndefined"
  shows "snd (callTool e ''gh_repo'' (JObj fs)) = []
    \<and> (\<forall>p. GitHubActionSchema_parse (ZodError_message e) (JObj fs) = Inr p \<longrightarrow>
          fst (callTool e ''gh_repo'' (JObj fs))
            = Inl (McpError InvalidParams ''Repository name is required''))
    \<and> (\<forall>x. GitHubActionSchema_parse (ZodError_message e) (JObj fs) = Inl x \<longrightarrow>
          fst (callTool e ''gh_repo'' (JObj fs))
            = Inl (McpError InternalError
                     (''GitHub API error: '' @ ZodError_message e (JObj fs))))"
proof (cases "GitHubActionSchema_parse (ZodError_message e) (JObj fs)")
  case (Inl x)
  then show ?thesis by (simp add: invalid_arguments_are_internal_errors)
next
  case (Inr p)
  with assms have "action p = A_create" "name p = None"
    by (auto simp: GitHubActionSchema_parse_def split: option.splits)
  with Inr have "handleRepoAction e (JObj fs)
      = (Inl (McpError InvalidParams ''Repository name is required''), [])"
    by (intro handleRepoAction_no_name) auto
  with Inr show ?thesis by (simp add: callTool_gh_repo)
qed

text \<open>
  Claim C4 says that every \<^verbatim>\<open>create\<close> request of the repository tool whose \<^verbatim>\<open>name\<close> field
  is absent fails with \<^verbatim>\<open>InvalidParams\<close> before any call on the client. For
  \<^verbatim>\<open>{action: "create", public: "yes"}\<close> the name is absent and no call is made, but the
  schema rejects \<^verbatim>\<open>public\<close> before the test of the name is reached, and the \<^verbatim>\<open>catch\<close>
  clause reports the \<^verbatim>\<open>ZodError\<close> as an \<^verbatim>\<open>InternalError\<close>.
\<close>

theorem create_without_name_internal_error:
  "get_prop ''action'' [(''action'', JStr ''create''), (''public'', JStr ''yes'')]
       = JStr ''create''
   \<and> get_prop ''name'' [(''action'', JStr ''create''), (''public'', JStr ''yes'')]
       = JUndefined
   \<and> callTool e ''gh_repo'' (JObj [(''action'', JStr ''create''), (''public'', JStr ''yes'')])
       = (Inl (McpError InternalError
                 (''GitHub API error: '' @
                  ZodError_message e
                    (JObj [(''action'', JStr ''create''), (''public'', JStr ''yes'')]))), [])"
  by (simp add: callTool_gh_repo handleRepoAction_def GitHubActionSchema_parse_def get_prop_def)

section \<open>Viewing a repository\<close>

lemma str_split_two_segments:
  assumes "str_includes n c"
  shows "\<exists>a b rest. str_split c n = a # b # rest"
proof -
  from assms have "c \<in> set n" by (simp add: str_includes_def)
  then obtain a tl where n: "n = a @ c # tl" and a: "c \<notin> set a"
    by (auto dest: split_list_first)
  obtain b rest where "str_split c tl = b # rest"
    using str_split_nonempty [of c tl] by (cases "str_split c tl") auto
  with n a show ?thesis by (simp add: str_split_prefix)
qed

lemma parse_view:
  "GitHubActionSchema_parse zmsg (JObj [(''action'', JStr ''view''), (''name'', JStr n)])
     = Inr \<lparr>action = A_view, name = Some n, description = None, public = None,
            clone = None, path = None, org = None\<rparr>"
  by (simp add: GitHubActionSchema_parse_def get_prop_def)

text \<open>
  Claim C5 says that a \<^verbatim>\<open>view\<close> whose name has no \<^verbatim>\<open>/\<close> always makes exactly two calls.
  It makes none when the name is the empty string, which the test \<^verbatim>\<open>!params.name\<close>
  rejects, and only the identity lookup when that lookup throws.
\<close>

theorem view_call_count_counterexample:
  "callTool up_env ''gh_repo'' (JObj [(''action'', JStr ''view''), (''name'', JStr '''')])
     = (Inl (McpError InvalidParams ''Repository name is required''), [])
   \<and> callTool down_env ''gh_repo'' (JObj [(''action'', JStr ''view''), (''name'', JStr ''repo-only'')])
     = (Inl (McpError InternalError ''GitHub API error: Bad credentials''), [Users_getAuthenticated])"
  by (simp add: callTool_gh_repo handleRepoAction_def parse_view str_includes_def down_env_def)

text \<open>
  Claim C5 as amended, for a \<^verbatim>\<open>view\<close> whose arguments pass the schema and whose name is not
  empty. If the name contains \<^verbatim>\<open>/\<close>, exactly one call is made: a repository-get with the
  first two segments of the split name as owner and repository, and no identity lookup.
  Otherwise the identity lookup is made first; when it succeeds, a repository-get with
  the resolved login as owner and the name as repository follows, two calls in all; when
  it throws, it is the only call.
\<close>

theorem view_calls:
  assumes p: "GitHubActionSchema_parse (ZodError_message e) args = Inr p"
    and a: "action p = A_view" and n: "name p = Some n" and ne: "n \<noteq> []"
  shows "(str_includes n (CHR ''/'') \<longrightarrow>
            (\<exists>ow r rest. str_split (CHR ''/'') n = ow # r # rest \<and>
               snd (callTool e ''gh_repo'' args) = [Repos_get (Some ow) (Some r)]))
       \<and> (\<not> str_includes n (CHR ''/'') \<longrightarrow>
            (\<forall>u. users_getAuthenticated e = Inr u \<longrightarrow>
               snd (callTool e ''gh_repo'' args)
                 = [Users_getAuthenticated, Repos_get (Some (login u)) (Some n)])
          \<and> (\<forall>x. users_getAuthenticated e = Inl x \<longrightarrow>
               snd (callTool e ''gh_repo'' args) = [Users_getAuthenticated]))"
proof (intro conjI impI allI)
  assume inc: "str_includes n (CHR ''/'')"
  then obtain ow r rest where s: "str_split (CHR ''/'') n = ow # r # rest"
    using str_split_two_segments by blast
  then have "destructure2 (str_split (CHR ''/'') n) = (Some ow, Some r)" by simp
  from handleRepoAction_view_qualified [OF p a n inc this]
  have "snd (callTool e ''gh_repo'' args) = [Repos_get (Some ow) (Some r)]"
    by (simp add: callTool_gh_repo split: sum.splits)
  with s show "\<exists>ow r rest. str_split (CHR ''/'') n = ow # r # rest \<and>
               snd (callTool e ''gh_repo'' args) = [Repos_get (Some ow) (Some r)]"
    by blast
next
  fix u assume "\<not> str_includes n (CHR ''/'')" and "users_getAuthenticated e = Inr u"
  from handleRepoAction_view_lookup [OF p a n ne this]
  show "snd (callTool e ''gh_repo'' args)
          = [Users_getAuthenticated, Repos_get (Some (login u)) (Some n)]"
    by (simp add: callTool_gh_repo split: sum.splits)
next
  fix x assume "\<not> str_includes n (CHR ''/'')" and "users_getAuthenticated e = Inl x"
  from handleRepoAction_view_lookup_fails [OF p a n ne this]
  show "snd (callTool e ''gh_repo'' args) = [Users_getAuthenticated]"
    by (simp add: callTool_gh_repo)
qed

text \<open>Claim C5 as amended, on \<^verbatim>\<open>octocat/Hello-World\<close> and on \<^verbatim>\<open>repo-only\<close>, the latter with
  the lookup succeeding and with the lookup failing.\<close>

theorem view_calls_witness:
  "snd (callTool up_env ''gh_repo''
          (JObj [(''action'', JStr ''view''), (''name'', JStr ''octocat/Hello-World'')]))
     = [Repos_get (Some ''octocat'') (Some ''Hello-World'')]
   \<and> snd (callTool up_env ''gh_repo''
          (JObj [(''action'', JStr ''view''), (''name'', JStr ''repo-only'')]))
     = [Users_getAuthenticated, Repos_get (Some ''octocat'') (Some ''repo-only'')]
   \<and> snd (callTool down_env ''gh_repo''
          (JObj [(''action'', JStr ''view''), (''name'', JStr ''repo-only'')]))
     = [Users_getAuthenticated]"
proof -
  let ?p = "\<lambda>n. \<lparr>action = A_view, name = Some n, description = None, public = None,
            clone = None, path = None, org = None\<rparr>"
  have s: "str_split (CHR ''/'') ''octocat/Hello-World'' = [''octocat'', ''Hello-World'']"
    by simp
  have i1: "str_includes ''octocat/Hello-World'' (CHR ''/'')" by (simp add: str_includes_def)
  have i2: "\<not> str_includes ''repo-only'' (CHR ''/'')" by (simp add: str_includes_def)
  have u: "users_getAuthenticated up_env = Inr \<lparr>login = ''octocat''\<rparr>" by (simp add: up_env_def)
  have d: "users_getAuthenticated down_env = Inl (Error ''Bad credentials'')" by (simp add: down_env_def)
  have a: "snd (callTool up_env ''gh_repo''
          (JObj [(''action'', JStr ''view''), (''name'', JStr ''octocat/Hello-World'')]))
     = [Repos_get (Some ''octocat'') (Some ''Hello-World'')]"
    using view_calls [where e = up_env and p = "?p ''octocat/Hello-World''"
        and n = "''octocat/Hello-World''"
        and args = "JObj [(''action'', JStr ''view''), (''name'', JStr ''octocat/Hello-World'')]"] i1 s
    by (simp add: parse_view)
  have b: "snd (callTool up_env ''gh_repo''
          (JObj [(''action'', JStr ''view''), (''name'', JStr ''repo-only'')]))
     = [Users_getAuthenticated, Repos_get (Some ''octocat'') (Some ''repo-only'')]"
    using view_calls [where e = up_env and p = "?p ''repo-only''" and n = "''repo-only''"
        and args = "JObj [(''action'', JStr ''view''), (''name'', JStr ''repo-only'')]"] i2 u
    by (simp add: parse_view)
  have c: "snd (callTool down_env ''gh_repo''
          (JObj [(''action'', JStr ''view''), (''name'', JStr ''repo-only'')]))
     = [Users_getAuthenticated]"
    using view_calls [where e = down_env and p = "?p ''repo-only''" and n = "''repo-only''"
        and args = "JObj [(''action'', JStr ''view''), (''name'', JStr ''repo-only'')]"] i2 d
    by (simp add: parse_view)
  from a b c show ?thesis by simp
qed

text \<open>
  Claim C10: a \<^verbatim>\<open>view\<close> whose name has two or more \<^verbatim>\<open>/\<close>, that is a name
  \<^verbatim>\<open>ow/r/rest\<close> with no \<^verbatim>\<open>/\<close> in \<^verbatim>\<open>ow\<close> and \<^verbatim>\<open>r\<close>, makes the one call
  \<^verbatim>\<open>repos.get({owner: ow, repo: r})\<close> and returns what that call gives: \<^verbatim>\<open>rest\<close> has no
  influence and raises no error.
\<close>

theorem view_drops_further_segments:
  assumes p: "GitHubActionSchema_parse (ZodError_message e) args = Inr p"
    and a: "action p = A_view"
    and n: "name p = Some (ow @ ''/'' @ r @ ''/'' @ rest)"
    and ow: "CHR ''/'' \<notin> set ow" and r: "CHR ''/'' \<notin> set r"
  shows "callTool e ''gh_repo'' args =
           (case repos_get e (Some ow) (Some r) of
              Inl err \<Rightarrow> Inl (rewrap err)
            | Inr data \<Rightarrow> Inr (text_result (JSON_stringify e (view_entry data))),
            [Repos_get (Some ow) (Some r)])"
proof -
  let ?n = "ow @ ''/'' @ r @ ''/'' @ rest"
  have inc: "str_includes ?n (CHR ''/'')" by (simp add: str_includes_def)
  have "str_split (CHR ''/'') ?n = ow # r # str_split (CHR ''/'') rest"
    using ow r by (simp add: str_split_prefix)
  then have "destructure2 (str_split (CHR ''/'') ?n) = (Some ow, Some r)"
    using str_split_nonempty [of "CHR ''/''" rest]
    by (cases "str_split (CHR ''/'') rest") simp_all
  from handleRepoAction_view_qualified [OF p a n inc this]
  show ?thesis by (simp add: callTool_gh_repo split: sum.splits)
qed

text \<open>Claim C10 on the name \<^verbatim>\<open>a/b/c\<close>.\<close>

theorem view_drops_further_segments_witness:
  "callTool up_env ''gh_repo'' (JObj [(''action'', JStr ''view''), (''name'', JStr ''a/b/c'')])
     = (Inr (text_result (JSON_stringify up_env (view_entry hello_world))),
        [Repos_get (Some ''a'') (Some ''b'')])"
proof -
  have n: "name \<lparr>action = A_view, name = Some ''a/b/c'', description = None, public = None,
            clone = None, path = None, org = None\<rparr> = Some (''a'' @ ''/'' @ ''b'' @ ''/'' @ ''c'')"
    by simp
  have a: "CHR ''/'' \<notin> set ''a''" and b: "CHR ''/'' \<notin> set ''b''" by simp_all
  have g: "repos_get up_env (Some ''a'') (Some ''b'') = Inr hello_world" by (simp add: up_env_def)
  show ?thesis
    using view_drops_further_segments [OF parse_view [of "ZodError_message up_env" "''a/b/c''"] _ n a b] g
    by simp
qed

section \<open>Dispatch on the tool name\<close>

text \<open>
  Claim C6: a request for a tool other than \<^verbatim>\<open>gh_repo\<close>, \<^verbatim>\<open>gh_pr\<close> and \<^verbatim>\<open>gh_issue\<close> fails
  with \<^verbatim>\<open>MethodNotFound\<close>; the outcome is the same whatever the three handlers are, so none
  of them takes part in it.
\<close>

theorem unknown_tool_is_method_not_found:
  "nm \<notin> {''gh_repo'', ''gh_pr'', ''gh_issue''} \<Longrightarrow>
   callToolWith hRepo hPR hIssue nm args
     = (Inl (McpError MethodNotFound (''Unknown tool: '' @ nm)), [])"
  by (simp add: callToolWith_def)

text \<open>Claim C6 on the server's own handlers and the tool name \<^verbatim>\<open>nonexistent_tool\<close>.\<close>

theorem unknown_tool_is_method_not_found_witness:
  "''nonexistent_tool'' \<notin> {''gh_repo'', ''gh_pr'', ''gh_issue''}
   \<and> callTool up_env ''nonexistent_tool'' (JObj [])
       = (Inl (McpError MethodNotFound ''Unknown tool: nonexistent_tool''), [])"
proof -
  have h: "''nonexistent_tool'' \<notin> {''gh_repo'', ''gh_pr'', ''gh_issue''}" by simp
  show ?thesis
    using h unknown_tool_is_method_not_found [OF h, of "handleRepoAction up_env"
        "handlePRAction up_env" "handleIssueAction up_env" "JObj []"]
    by (simp add: callTool_def)
qed

section \<open>Errors of the API client\<close>

lemma raised_in_handleRepoAction:
  "c \<in> set (snd (handleRepoAction e args)) \<Longrightarrow> raised e c = Some x \<Longrightarrow>
   fst (handleRepoAction e args) = Inl x"
  by (auto simp: handleRepoAction_def
           split: sum.splits repo_action.splits option.splits if_splits prod.splits)

text \<open>
  Claim C7: when a call made during a dispatch raises an error that is not an
  \<^verbatim>\<open>McpError\<close>, the dispatch fails with \<^verbatim>\<open>InternalError\<close>, and the message is
  \<^verbatim>\<open>GitHub API error: \<close> followed by the message of that error.
\<close>

theorem collaborator_error_is_internal_error:
  assumes "c \<in> set (snd (callTool e nm args))" and "raised e c = Some (Error m)"
  shows "fst (callTool e nm args) = Inl (McpError InternalError (''GitHub API error: '' @ m))"
proof -
  from assms(1) have nm: "nm = ''gh_repo''"
    by (auto simp: callTool_def callToolWith_def handlePRAction_def handleIssueAction_def
             split: if_splits)
  obtain res calls where h: "handleRepoAction e args = (res, calls)"
    by (cases "handleRepoAction e args")
  with assms(1) nm have "c \<in> set calls"
    by (auto simp: callTool_gh_repo split: sum.splits)
  with h assms(2) have "res = Inl (Error m)"
    using raised_in_handleRepoAction [of c e args "Error m"] by simp
  with h nm show ?thesis by (simp add: callTool_gh_repo)
qed

text \<open>Claim C7 on a \<^verbatim>\<open>list\<close> request against a client whose calls all throw.\<close>

theorem collaborator_error_is_internal_error_witness:
  "Repos_listForAuthenticatedUser ''updated'' 100
      \<in> set (snd (callTool down_env ''gh_repo'' (JObj [(''action'', JStr ''list'')])))
   \<and> raised down_env (Repos_listForAuthenticatedUser ''updated'' 100)
       = Some (Error ''Bad credentials'')
   \<and> fst (callTool down_env ''gh_repo'' (JObj [(''action'', JStr ''list'')]))
       = Inl (McpError InternalError ''GitHub API error: Bad credentials'')"
proof -
  have a: "Repos_listForAuthenticatedUser ''updated'' 100
      \<in> set (snd (callTool down_env ''gh_repo'' (JObj [(''action'', JStr ''list'')])))"
    by (simp add: callTool_gh_repo handleRepoAction_def GitHubActionSchema_parse_def
          get_prop_def down_env_def)
  have b: "raised down_env (Repos_listForAuthenticatedUser ''updated'' 100)
       = Some (Error ''Bad credentials'')"
    by (simp add: down_env_def)
  show ?thesis using a b collaborator_error_is_internal_error [OF a b] by simp
qed

section \<open>The shape of results\<close>

lemma handleRepoAction_content:
  "fst (handleRepoAction e args) = Inr r \<Longrightarrow> \<exists>t. r = text_result t"
  by (auto simp: handleRepoAction_def
           split: sum.splits repo_action.splits option.splits if_splits prod.splits)

text \<open>
  Claim C8: a result returned by any of the three handlers, or by the call-tool handler,
  has a content of exactly one block, of type \<^verbatim>\<open>text\<close>.
\<close>

theorem result_is_one_text_block:
  assumes "fst (handleRepoAction e args) = Inr r \<or> fst (handlePRAction e args) = Inr r
         \<or> fst (handleIssueAction e args) = Inr r \<or> fst (callTool e nm args) = Inr r"
  shows "\<exists>t. content r = [\<lparr>type = ''text'', text = t\<rparr>]"
proof -
  have repo: "\<exists>t. r = text_result t" if "fst (handleRepoAction e args) = Inr r"
    using that by (rule handleRepoAction_content)
  have pr: "\<exists>t. r = text_result t" if "fst (handlePRAction e args) = Inr r"
    using that by (auto simp: handlePRAction_def text_result_def)
  have issue: "\<exists>t. r = text_result t" if "fst (handleIssueAction e args) = Inr r"
    using that by (auto simp: handleIssueAction_def text_result_def)
  have "fst (handleRepoAction e args) = Inr r \<or> fst (handlePRAction e args) = Inr r
         \<or> fst (handleIssueAction e args) = Inr r" if "fst (callTool e nm args) = Inr r"
    using that
    by (auto simp: callTool_def callToolWith_def split: if_splits prod.splits sum.splits)
  with assms repo pr issue have "\<exists>t. r = text_result t" by blast
  then show ?thesis by (auto simp: text_result_def)
qed

text \<open>Claim C8 on the result of a \<^verbatim>\<open>list\<close> request.\<close>

theorem result_is_one_text_block_witness:
  "fst (callTool up_env ''gh_repo'' (JObj [(''action'', JStr ''list'')]))
     = Inr \<lparr>content = [\<lparr>type = ''text'', text = ''{}''\<rparr>]\<rparr>
   \<and> (\<exists>t. content \<lparr>content = [\<lparr>type = ''text'', text = ''{}''\<rparr>]\<rparr>
            = [\<lparr>type = ''text'', text = t\<rparr>])"
proof -
  have h: "fst (callTool up_env ''gh_repo'' (JObj [(''action'', JStr ''list'')]))
     = Inr \<lparr>content = [\<lparr>type = ''text'', text = ''{}''\<rparr>]\<rparr>"
    by (simp add: callTool_gh_repo handleRepoAction_def GitHubActionSchema_parse_def
          get_prop_def up_env_def text_result_def)
  from h result_is_one_text_block [of up_env "JObj [(''action'', JStr ''list'')]"
      "\<lparr>content = [\<lparr>type = ''text'', text = ''{}''\<rparr>]\<rparr>" "''gh_repo''"]
  show ?thesis by blast
qed

text \<open>
  Claim C9: whatever the arguments, also ones that break the declared schemas of the two
  tools, \<^verbatim>\<open>handlePRAction\<close> and \<^verbatim>\<open>handleIssueAction\<close> validate nothing, make no call on the
  client, do not fail, and return each its one constant text block.
\<close>

theorem handlers_without_implementation:
  "handlePRAction e args =
     (Inr \<lparr>content = [\<lparr>type = ''text'',
                        text = ''PR action handler not fully implemented yet''\<rparr>]\<rparr>, [])
   \<and> handleIssueAction e args =
     (Inr \<lparr>content = [\<lparr>type = ''text'',
                        text = ''Issue action handler not fully implemented yet''\<rparr>]\<rparr>, [])"
  by (simp add: handlePRAction_def handleIssueAction_def)

end
